theory Spec2Isabelle
  imports Complex_Main
begin

section \<open>Numbers\<close>

text \<open>
  The services compute on Python floats. Finite floats are modelled as rationals with exact
  arithmetic (rounding is outside this development); the three non-finite results a float
  operation can produce are kept apart, since the RSI code divides by a value that may be zero.
  A pandas series that may hold NaN but no infinity is a list of \<open>rat option\<close>, with
  \<open>None\<close> for NaN.
\<close>

datatype fval = Fin rat | PInf | NInf | NaN

fun fneg :: "fval \<Rightarrow> fval" where
  "fneg (Fin a) = Fin (- a)"
| "fneg PInf = NInf"
| "fneg NInf = PInf"
| "fneg NaN = NaN"

fun fadd :: "fval \<Rightarrow> fval \<Rightarrow> fval" where
  "fadd NaN _ = NaN"
| "fadd _ NaN = NaN"
| "fadd (Fin a) (Fin b) = Fin (a + b)"
| "fadd PInf NInf = NaN"
| "fadd NInf PInf = NaN"
| "fadd PInf _ = PInf"
| "fadd _ PInf = PInf"
| "fadd NInf _ = NInf"
| "fadd _ NInf = NInf"

definition fsub :: "fval \<Rightarrow> fval \<Rightarrow> fval" where
  "fsub a b = fadd a (fneg b)"

text \<open>Float division as numpy performs it on arrays: no exception, a zero divisor gives
  an infinity or, for \<open>0 / 0\<close>, NaN. Zero is taken as positive zero.\<close>

fun fdiv :: "fval \<Rightarrow> fval \<Rightarrow> fval" where
  "fdiv NaN _ = NaN"
| "fdiv _ NaN = NaN"
| "fdiv (Fin a) (Fin b) =
     (if b \<noteq> 0 then Fin (a / b)
      else if a = 0 then NaN
      else if 0 < a then PInf else NInf)"
| "fdiv (Fin a) PInf = Fin 0"
| "fdiv (Fin a) NInf = Fin 0"
| "fdiv PInf (Fin b) = (if 0 \<le> b then PInf else NInf)"
| "fdiv NInf (Fin b) = (if 0 \<le> b then NInf else PInf)"
| "fdiv PInf _ = NaN"
| "fdiv NInf _ = NaN"

fun of_nullable :: "rat option \<Rightarrow> fval" where
  "of_nullable None = NaN"
| "of_nullable (Some a) = Fin a"

text \<open>\<^verbatim>\<open>float(x) if not pd.isna(x) else None\<close>\<close>

fun null_if_na :: "fval \<Rightarrow> fval option" where
  "null_if_na NaN = None"
| "null_if_na v = Some v"

section \<open>The pandas operations the indicator code calls\<close>

text \<open>
  \<^verbatim>\<open>series.rolling(window=w).mean()\<close>: pandas keeps a running sum of the observations in
  the window; each step adds the entering value, removes the one that leaves, and writes
  \<open>sum / nobs\<close> once the window holds \<open>w\<close> observations (\<open>min_periods\<close> defaults to the
  window), NaN before. \<open>win\<close> is the content of the window, oldest first.
\<close>

fun roll_loop :: "nat \<Rightarrow> rat list \<Rightarrow> rat \<Rightarrow> rat list \<Rightarrow> rat option list" where
  "roll_loop w win sum_x [] = []"
| "roll_loop w win sum_x (x # xs) =
     (let win1 = win @ [x];
          sum1 = sum_x + x;
          win2 = (if w < length win1 then tl win1 else win1);
          sum2 = (if w < length win1 then sum1 - hd win1 else sum1);
          nobs = length win2
      in (if w \<le> nobs \<and> 0 < nobs then Some (sum2 / of_nat nobs) else None)
         # roll_loop w win2 sum2 xs)"

definition rolling_mean :: "nat \<Rightarrow> rat list \<Rightarrow> rat option list" where
  "rolling_mean w xs = roll_loop w [] 0 xs"

text \<open>
  \<^verbatim>\<open>series.ewm(span=s).mean()\<close> with the defaults of pandas (\<open>adjust=True\<close>,
  \<open>min_periods=0\<close>) on a series without NaN: \<open>alpha = 2 / (s + 1)\<close>, where the span
  \<open>s\<close> is the first argument below; the first output is the first value; afterwards the weight of the history \<open>old_wt\<close> decays by \<open>1 - alpha\<close>,
  the new observation enters with weight 1, and the weighted mean is renormalised.
\<close>

fun ewm_loop :: "rat \<Rightarrow> rat \<Rightarrow> rat \<Rightarrow> rat list \<Rightarrow> rat list" where
  "ewm_loop alpha weighted old_wt [] = []"
| "ewm_loop alpha weighted old_wt (cur # rest) =
     (let old_wt1 = old_wt * (1 - alpha);
          weighted1 = (if weighted \<noteq> cur
                       then (old_wt1 * weighted + cur) / (old_wt1 + 1)
                       else weighted);
          old_wt2 = old_wt1 + 1
      in weighted1 # ewm_loop alpha weighted1 old_wt2 rest)"

definition ewm_alpha :: "nat \<Rightarrow> rat" where
  "ewm_alpha n = 2 / (of_nat n + 1)"

definition ewm_mean :: "nat \<Rightarrow> rat list \<Rightarrow> rat list" where
  "ewm_mean n xs =
     (case xs of [] \<Rightarrow> [] | x # rest \<Rightarrow> x # ewm_loop (ewm_alpha n) x 1 rest)"

text \<open>\<^verbatim>\<open>series.diff()\<close>: NaN first, then the difference to the previous value.\<close>

fun diff_loop :: "rat \<Rightarrow> rat list \<Rightarrow> rat option list" where
  "diff_loop prev [] = []"
| "diff_loop prev (x # xs) = Some (x - prev) # diff_loop x xs"

definition diff :: "rat list \<Rightarrow> rat option list" where
  "diff xs = (case xs of [] \<Rightarrow> [] | x # rest \<Rightarrow> None # diff_loop x rest)"

text \<open>\<^verbatim>\<open>delta.where(delta > 0, 0)\<close> and \<^verbatim>\<open>-delta.where(delta < 0, 0)\<close>: a comparison
  with NaN is false, so the NaN at the head is replaced by 0 as well.\<close>

fun gain_of :: "rat option \<Rightarrow> rat" where
  "gain_of None = 0"
| "gain_of (Some d) = (if 0 < d then d else 0)"

fun loss_of :: "rat option \<Rightarrow> rat" where
  "loss_of None = 0"
| "loss_of (Some d) = - (if d < 0 then d else 0)"

text \<open>\<^verbatim>\<open>rs = gain / loss; 100 - (100 / (1 + rs))\<close>\<close>

definition rsi_point :: "rat option \<Rightarrow> rat option \<Rightarrow> fval" where
  "rsi_point gain loss =
     (let rs = fdiv (of_nullable gain) (of_nullable loss)
      in fsub (Fin 100) (fdiv (Fin 100) (fadd (Fin 1) rs)))"

definition rsi_series :: "rat list \<Rightarrow> fval list" where
  "rsi_series closes =
     (let delta = diff closes;
          gain = rolling_mean 14 (map gain_of delta);
          loss = rolling_mean 14 (map loss_of delta)
      in map2 rsi_point gain loss)"

definition series_sub :: "rat list \<Rightarrow> rat list \<Rightarrow> rat list" where
  "series_sub xs ys = map2 (\<lambda>x y. x - y) xs ys"

section \<open>Candles and the indicator engine of the crypto service\<close>

record candle =
  c_time :: int
  c_open :: rat
  c_high :: rat
  c_low :: rat
  c_close :: rat
  c_vwap :: rat
  c_volume :: rat
  c_trades :: int

text \<open>The value under \<open>'macd'\<close>: the empty list of the early return, or the three series.\<close>

datatype macd_out =
    MacdEmpty
  | Macd (macd_line: "rat list") (signal_line: "rat list") (macd_histogram: "rat list")

record indicators =
  sma_20 :: "rat option list"
  sma_50 :: "rat option list"
  ema_12 :: "rat list"
  ema_26 :: "rat list"
  macd :: macd_out
  rsi :: "fval list"

definition empty_bundle :: indicators where
  "empty_bundle =
     \<lparr>sma_20 = [], sma_50 = [], ema_12 = [], ema_26 = [], macd = MacdEmpty, rsi = []\<rparr>"

definition calculate_technical_indicators :: "candle list \<Rightarrow> indicators" where
  "calculate_technical_indicators data =
     (if data = [] \<or> length data < 50 then empty_bundle
      else
        let closes = map c_close data;
            e12 = ewm_mean 12 closes;
            e26 = ewm_mean 26 closes;
            line = series_sub e12 e26;
            sig = ewm_mean 9 line;
            hist = series_sub line sig
        in \<lparr>sma_20 = rolling_mean 20 closes,
            sma_50 = rolling_mean 50 closes,
            ema_12 = ewm_mean 12 closes,
            ema_26 = ewm_mean 26 closes,
            macd = Macd line sig hist,
            rsi = rsi_series closes\<rparr>)"

section \<open>The technical endpoint of the equities service\<close>

text \<open>A row of the price history that yfinance returns; the volume may be NaN.\<close>

record hist_row =
  h_time :: int
  h_open :: rat
  h_high :: rat
  h_low :: rat
  h_close :: rat
  h_volume :: "rat option"

record tech_point =
  tp_time :: int
  tp_close :: rat
  tp_sma20 :: "rat option"
  tp_sma50 :: "rat option"
  tp_macd :: "rat option"
  tp_signal :: "rat option"
  tp_rsi :: "fval option"

text \<open>A response of an endpoint: the body with status 200, or the status of an error
  response (404 for no data, 500 for a caught exception).\<close>

datatype 'a http = Ok 'a | Failed nat

text \<open>
  \<open>get_technical_indicators\<close> takes what \<^verbatim>\<open>yf.Ticker(symbol).history(period=period)\<close>
  gives: \<open>None\<close> when the call raises, the rows of the frame otherwise. There is no minimum
  length here; each point is masked with \<^verbatim>\<open>pd.isna\<close>. The echo of the symbol and the
  time stamp of the response are left out.
\<close>

definition get_technical_indicators :: "hist_row list option \<Rightarrow> tech_point list http" where
  "get_technical_indicators fetched =
     (case fetched of
        None \<Rightarrow> Failed 500
      | Some hist \<Rightarrow>
          if hist = [] then Failed 404
          else
            let close_prices = map h_close hist;
                sma_20 = rolling_mean 20 close_prices;
                sma_50 = rolling_mean 50 close_prices;
                ema_12 = ewm_mean 12 close_prices;
                ema_26 = ewm_mean 26 close_prices;
                macd_line = series_sub ema_12 ema_26;
                signal_line = ewm_mean 9 macd_line;
                rsi = rsi_series close_prices
            in Ok (map (\<lambda>i.
                     \<lparr>tp_time = h_time (hist ! i),
                      tp_close = h_close (hist ! i),
                      tp_sma20 = sma_20 ! i,
                      tp_sma50 = sma_50 ! i,
                      tp_macd = Some (macd_line ! i),
                      tp_signal = Some (signal_line ! i),
                      tp_rsi = null_if_na (rsi ! i)\<rparr>) [0..<length hist]))"

section \<open>Provider payloads\<close>

text \<open>
  What the Kraken client returns is not typed. A value inside a payload is described by what
  the code can observe of it: the result of \<^verbatim>\<open>float(v)\<close>, of \<^verbatim>\<open>int(v)\<close> and of
  indexing, iterating or slicing it (its items); \<open>None\<close> stands for the operation raising.
  A number has no items, a list has no numeric value. Parsed numbers are finite.
\<close>

datatype pyobj = Obj (float_of: "rat option") (int_of: "int option") (items_of: "pyobj list option")

text \<open>\<^verbatim>\<open>float(v[i])\<close>, \<^verbatim>\<open>int(v[i])\<close> and \<^verbatim>\<open>v[i]\<close> for an index \<open>i \<ge> 0\<close>; \<open>None\<close> when
  the expression raises (not subscriptable, index out of range, not a number).\<close>

definition item_at :: "pyobj \<Rightarrow> nat \<Rightarrow> pyobj option" where
  "item_at v i =
     (case items_of v of
        None \<Rightarrow> None
      | Some xs \<Rightarrow> if i < length xs then Some (xs ! i) else None)"

definition float_at :: "pyobj \<Rightarrow> nat \<Rightarrow> rat option" where
  "float_at v i = Option.bind (item_at v i) float_of"

definition int_at :: "pyobj \<Rightarrow> nat \<Rightarrow> int option" where
  "int_at v i = Option.bind (item_at v i) int_of"

text \<open>
  The client of the exchange, one function per call the provider makes. The outer option
  is \<open>None\<close> when the call raises (network failure, error reply); otherwise the reply is a
  dictionary keyed by pair name. A ticker and an order book are dictionaries themselves.
\<close>

record kraken =
  get_pair_ticker :: "string \<Rightarrow> (string \<rightharpoonup> (string \<rightharpoonup> pyobj)) option"
  fetch_ohlc :: "string \<Rightarrow> int \<Rightarrow> int option \<Rightarrow> (string \<rightharpoonup> pyobj) option"
  fetch_order_book :: "string \<Rightarrow> (string \<rightharpoonup> (string \<rightharpoonup> pyobj)) option"
  fetch_recent_trades :: "string \<Rightarrow> (string \<rightharpoonup> pyobj) option"

section \<open>The provider: ticker\<close>

text \<open>The snapshot without its time stamp. The three derived entries are set together or
  not at all; \<open>None\<close> is a key that the dictionary does not have.\<close>

record ticker_snapshot =
  t_symbol :: string
  t_price :: rat
  t_open :: rat
  t_high :: rat
  t_low :: rat
  t_volume :: rat
  t_vwap :: rat
  t_trades :: int
  t_bid :: rat
  t_ask :: rat
  t_change :: "rat option"
  t_change_percent :: "rat option"
  t_spread :: "rat option"

text \<open>\<^verbatim>\<open>float(ticker[k][i])\<close>, \<^verbatim>\<open>int(ticker[k][i])\<close> and \<^verbatim>\<open>float(ticker[k])\<close>; a missing
  key raises as well.\<close>

definition key_float_at :: "(string \<rightharpoonup> pyobj) \<Rightarrow> string \<Rightarrow> nat \<Rightarrow> rat option" where
  "key_float_at d k i = Option.bind (d k) (\<lambda>v. float_at v i)"

definition key_int_at :: "(string \<rightharpoonup> pyobj) \<Rightarrow> string \<Rightarrow> nat \<Rightarrow> int option" where
  "key_int_at d k i = Option.bind (d k) (\<lambda>v. int_at v i)"

definition key_float :: "(string \<rightharpoonup> pyobj) \<Rightarrow> string \<Rightarrow> rat option" where
  "key_float d k = Option.bind (d k) float_of"

definition add_derived :: "ticker_snapshot \<Rightarrow> ticker_snapshot" where
  "add_derived t =
     (if 0 < t_open t then
        t\<lparr>t_change := Some (t_price t - t_open t),
          t_change_percent := Some ((t_price t - t_open t) / t_open t * 100),
          t_spread := Some (t_ask t - t_bid t)\<rparr>
      else t)"

definition format_ticker :: "string \<Rightarrow> (string \<rightharpoonup> pyobj) \<Rightarrow> ticker_snapshot option" where
  "format_ticker pair ticker =
     Option.bind (key_float_at ticker ''c'' 0) (\<lambda>price.
     Option.bind (key_float ticker ''o'') (\<lambda>opn.
     Option.bind (key_float_at ticker ''h'' 1) (\<lambda>high.
     Option.bind (key_float_at ticker ''l'' 1) (\<lambda>low.
     Option.bind (key_float_at ticker ''v'' 1) (\<lambda>volume.
     Option.bind (key_float_at ticker ''p'' 1) (\<lambda>vwap.
     Option.bind (key_int_at ticker ''t'' 1) (\<lambda>trades.
     Option.bind (key_float_at ticker ''b'' 0) (\<lambda>bid.
     Option.bind (key_float_at ticker ''a'' 0) (\<lambda>ask.
       Some \<lparr>t_symbol = pair, t_price = price, t_open = opn, t_high = high, t_low = low,
             t_volume = volume, t_vwap = vwap, t_trades = trades, t_bid = bid, t_ask = ask,
             t_change = None, t_change_percent = None, t_spread = None\<rparr>)))))))))"

text \<open>\<open>get_ticker\<close>: every exception inside is caught and turned into \<open>None\<close>, as is a
  reply without the pair.\<close>

definition get_ticker :: "kraken \<Rightarrow> string \<Rightarrow> ticker_snapshot option" where
  "get_ticker K pair =
     (case get_pair_ticker K pair of
        None \<Rightarrow> None
      | Some ticker_data \<Rightarrow>
          (case ticker_data pair of
             None \<Rightarrow> None
           | Some ticker \<Rightarrow> map_option add_derived (format_ticker pair ticker)))"

section \<open>The provider: candles\<close>

text \<open>The result of \<open>get_ohlc_data\<close> without its time stamp. The short form returned on a
  missing pair or a caught exception has no interval.\<close>

record ohlc_result =
  o_symbol :: string
  o_data :: "candle list"
  o_interval :: "int option"
  o_count :: nat

definition ohlc_empty :: "string \<Rightarrow> ohlc_result" where
  "ohlc_empty pair = \<lparr>o_symbol = pair, o_data = [], o_interval = None, o_count = 0\<rparr>"

text \<open>\<^verbatim>\<open>interval_mapping.get(interval, 60)\<close>\<close>

definition kraken_interval :: "int \<Rightarrow> int" where
  "kraken_interval interval = (if interval \<in> {1, 5, 15, 30, 60, 240, 1440} then interval else 60)"

text \<open>\<^verbatim>\<open>if since: params['since'] = since\<close>: neither \<open>None\<close> nor 0 is passed on.\<close>

definition since_param :: "int option \<Rightarrow> int option" where
  "since_param since = (case since of None \<Rightarrow> None | Some n \<Rightarrow> if n = 0 then None else Some n)"

definition process_candle :: "pyobj \<Rightarrow> candle option" where
  "process_candle cd =
     Option.bind (int_at cd 0) (\<lambda>tm.
     Option.bind (float_at cd 1) (\<lambda>opn.
     Option.bind (float_at cd 2) (\<lambda>high.
     Option.bind (float_at cd 3) (\<lambda>low.
     Option.bind (float_at cd 4) (\<lambda>cls.
     Option.bind (float_at cd 5) (\<lambda>vwap.
     Option.bind (float_at cd 6) (\<lambda>volume.
     Option.bind (int_at cd 7) (\<lambda>trades.
       Some \<lparr>c_time = tm, c_open = opn, c_high = high, c_low = low, c_close = cls,
             c_vwap = vwap, c_volume = volume, c_trades = trades\<rparr>))))))))"

text \<open>The loop over the rows: it raises at the first row that cannot be converted, and
  when the value under the pair cannot be iterated.\<close>

definition process_candles :: "pyobj \<Rightarrow> candle list option" where
  "process_candles candles = Option.bind (items_of candles) (\<lambda>rows. those (map process_candle rows))"

text \<open>\<^verbatim>\<open>if limit and limit > 0: processed_data = processed_data[-limit:]\<close>: a slice from
  the end; a limit beyond the length keeps everything.\<close>

definition apply_limit :: "int option \<Rightarrow> 'a list \<Rightarrow> 'a list" where
  "apply_limit limit xs =
     (case limit of
        None \<Rightarrow> xs
      | Some l \<Rightarrow> if l \<noteq> 0 \<and> 0 < l then drop (length xs - nat l) xs else xs)"

text \<open>The limit is applied first, then the list is sorted by time (\<^verbatim>\<open>list.sort\<close> is stable,
  as \<open>sort_key\<close> is).\<close>

definition get_ohlc_data :: "kraken \<Rightarrow> string \<Rightarrow> int \<Rightarrow> int option \<Rightarrow> int option \<Rightarrow> ohlc_result" where
  "get_ohlc_data K pair interval since limit =
     (case fetch_ohlc K pair (kraken_interval interval) (since_param since) of
        None \<Rightarrow> ohlc_empty pair
      | Some ohlc_data \<Rightarrow>
          (case ohlc_data pair of
             None \<Rightarrow> ohlc_empty pair
           | Some candles \<Rightarrow>
               (case process_candles candles of
                  None \<Rightarrow> ohlc_empty pair
                | Some processed \<Rightarrow>
                    let processed_data = sort_key c_time (apply_limit limit processed)
                    in \<lparr>o_symbol = pair, o_data = processed_data,
                        o_interval = Some interval, o_count = length processed_data\<rparr>)))"

section \<open>The provider: order book and trades\<close>

text \<open>\<^verbatim>\<open>xs[:n]\<close> for an integer \<open>n\<close>: a negative \<open>n\<close> counts from the end.\<close>

definition slice_to :: "int \<Rightarrow> 'a list \<Rightarrow> 'a list" where
  "slice_to n xs = (if 0 \<le> n then take (nat n) xs else take (nat (int (length xs) + n)) xs)"

record book_level =
  bl_price :: rat
  bl_volume :: rat
  bl_timestamp :: int

record order_book =
  ob_symbol :: string
  ob_asks :: "book_level list"
  ob_bids :: "book_level list"

definition format_level :: "pyobj \<Rightarrow> book_level option" where
  "format_level lv =
     Option.bind (float_at lv 0) (\<lambda>price.
     Option.bind (float_at lv 1) (\<lambda>volume.
     Option.bind (int_at lv 2) (\<lambda>ts.
       Some \<lparr>bl_price = price, bl_volume = volume, bl_timestamp = ts\<rparr>)))"

definition format_side :: "(string \<rightharpoonup> pyobj) \<Rightarrow> string \<Rightarrow> int \<Rightarrow> book_level list option" where
  "format_side book_data k depth =
     Option.bind (book_data k) (\<lambda>side.
     Option.bind (items_of side) (\<lambda>levels.
       those (map format_level (slice_to depth levels))))"

definition get_order_book :: "kraken \<Rightarrow> string \<Rightarrow> int \<Rightarrow> order_book option" where
  "get_order_book K pair depth =
     (case fetch_order_book K pair of
        None \<Rightarrow> None
      | Some book \<Rightarrow>
          (case book pair of
             None \<Rightarrow> None
           | Some book_data \<Rightarrow>
               Option.bind (format_side book_data ''asks'' depth) (\<lambda>asks.
               Option.bind (format_side book_data ''bids'' depth) (\<lambda>bids.
                 Some \<lparr>ob_symbol = pair, ob_asks = asks, ob_bids = bids\<rparr>))))"

text \<open>A formatted trade: three numbers, and the side, type and remark as the provider
  sent them.\<close>

record trade =
  tr_price :: rat
  tr_volume :: rat
  tr_time :: rat
  tr_side :: pyobj
  tr_type :: pyobj
  tr_misc :: pyobj

record trades_result =
  rt_symbol :: string
  rt_trades :: "trade list"
  rt_count :: nat

definition format_trade :: "pyobj \<Rightarrow> trade option" where
  "format_trade tr =
     Option.bind (float_at tr 0) (\<lambda>price.
     Option.bind (float_at tr 1) (\<lambda>volume.
     Option.bind (float_at tr 2) (\<lambda>tm.
     Option.bind (item_at tr 3) (\<lambda>side.
     Option.bind (item_at tr 4) (\<lambda>ty.
     Option.bind (item_at tr 5) (\<lambda>misc.
       Some \<lparr>tr_price = price, tr_volume = volume, tr_time = tm,
             tr_side = side, tr_type = ty, tr_misc = misc\<rparr>))))))"

definition get_recent_trades :: "kraken \<Rightarrow> string \<Rightarrow> int \<Rightarrow> trades_result option" where
  "get_recent_trades K pair limit =
     (case fetch_recent_trades K pair of
        None \<Rightarrow> None
      | Some trades \<Rightarrow>
          (case trades pair of
             None \<Rightarrow> None
           | Some trade_data \<Rightarrow>
               Option.bind (items_of trade_data) (\<lambda>rows.
               Option.bind (those (map format_trade (slice_to limit rows))) (\<lambda>formatted_trades.
                 Some \<lparr>rt_symbol = pair, rt_trades = formatted_trades,
                       rt_count = length formatted_trades\<rparr>))))"

section \<open>The provider: market summary\<close>

text \<open>The value under \<open>'technical_indicators'\<close>: the empty dictionary, or a bundle.\<close>

datatype summary_indicators = NoIndicators | Indicators indicators

record market_summary =
  s_symbol :: string
  s_ticker :: "ticker_snapshot option"
  s_ohlc_1h :: ohlc_result
  s_ohlc_1d :: ohlc_result
  s_order_book :: "order_book option"
  s_recent_trades :: "trades_result option"
  s_indicators :: summary_indicators

text \<open>
  \<open>get_market_summary\<close> returns the summary, or \<open>Inl\<close> the message of an exception it caught
  itself. Each of the five calls has caught its own exceptions already, and the indicator
  function raises on no list of candles, so no step of the body raises.
\<close>

definition get_market_summary :: "kraken \<Rightarrow> string \<Rightarrow> string + market_summary" where
  "get_market_summary K pair =
     (let ticker = get_ticker K pair;
          ohlc_1h = get_ohlc_data K pair 60 None (Some 24);
          ohlc_1d = get_ohlc_data K pair 1440 None (Some 30);
          order_book = get_order_book K pair 5;
          recent_trades = get_recent_trades K pair 20;
          indicators = (if o_data ohlc_1d \<noteq> []
                        then Indicators (calculate_technical_indicators (o_data ohlc_1d))
                        else NoIndicators)
      in Inr \<lparr>s_symbol = pair, s_ticker = ticker, s_ohlc_1h = ohlc_1h, s_ohlc_1d = ohlc_1d,
              s_order_book = order_book, s_recent_trades = recent_trades,
              s_indicators = indicators\<rparr>)"

section \<open>The cache of the equities service\<close>

text \<open>JSON values; an object keeps its entries in order.\<close>

datatype json =
    JNull
  | JBool bool
  | JNum rat
  | JStr string
  | JArr "json list"
  | JObj "(string \<times> json) list"

text \<open>Python's truth value of a decoded JSON value.\<close>

fun truthy :: "json \<Rightarrow> bool" where
  "truthy JNull = False"
| "truthy (JBool b) = b"
| "truthy (JNum r) = (r \<noteq> 0)"
| "truthy (JStr s) = (s \<noteq> [])"
| "truthy (JArr xs) = (xs \<noteq> [])"
| "truthy (JObj kvs) = (kvs \<noteq> [])"

text \<open>
  A Redis client over a store of state \<open>'s\<close>. \<open>rget\<close> gives \<open>None\<close> when the call raises,
  otherwise the stored string or Python's \<open>None\<close> (the inner option). \<open>rsetex\<close> gives
  \<open>None\<close> when the call raises, which leaves the store as it was, otherwise the store after
  the write.
\<close>

record 's redis =
  rget :: "'s \<Rightarrow> string \<Rightarrow> string option option"
  rsetex :: "'s \<Rightarrow> string \<Rightarrow> int \<Rightarrow> string \<Rightarrow> 's option"

text \<open>
  The module state of the service: \<open>redis_client\<close> is \<open>None\<close> when caching is disabled;
  \<open>json_loads\<close> and \<open>json_dumps\<close> are the functions of Python's json module, \<open>None\<close> when
  they raise.
\<close>

record 's service =
  redis_client :: "'s redis option"
  json_loads :: "string \<Rightarrow> json option"
  json_dumps :: "json \<Rightarrow> string option"

text \<open>\<open>get_cached_data\<close> returns a decoded value or Python's \<open>None\<close>, here \<open>JNull\<close> as
  json decodes \<^verbatim>\<open>null\<close> to it.\<close>

definition get_cached_data :: "'s service \<Rightarrow> 's \<Rightarrow> string \<Rightarrow> json" where
  "get_cached_data env st key =
     (case redis_client env of
        None \<Rightarrow> JNull
      | Some client \<Rightarrow>
          (case rget client st key of
             None \<Rightarrow> JNull
           | Some None \<Rightarrow> JNull
           | Some (Some cached) \<Rightarrow>
               if cached \<noteq> [] then
                 (case json_loads env cached of None \<Rightarrow> JNull | Some v \<Rightarrow> v)
               else JNull))"

text \<open>\<open>set_cached_data\<close> returns nothing; its effect is the store afterwards.\<close>

definition set_cached_data :: "'s service \<Rightarrow> 's \<Rightarrow> string \<Rightarrow> json \<Rightarrow> int \<Rightarrow> 's" where
  "set_cached_data env st key payload ttl =
     (case redis_client env of
        None \<Rightarrow> st
      | Some client \<Rightarrow>
          (case json_dumps env payload of
             None \<Rightarrow> st
           | Some dumped \<Rightarrow>
               (case rsetex client st key ttl dumped of None \<Rightarrow> st | Some st' \<Rightarrow> st')))"

text \<open>\<^verbatim>\<open>str.upper\<close> on ASCII text.\<close>

definition upper_char :: "char \<Rightarrow> char" where
  "upper_char c =
     (let n = (of_char c :: nat) in if 97 \<le> n \<and> n \<le> 122 then char_of (n - 32) else c)"

definition upper :: "string \<Rightarrow> string" where
  "upper s = map upper_char s"

text \<open>\<^verbatim>\<open>info.get(k, default)\<close>\<close>

definition get_or :: "(string \<rightharpoonup> json) \<Rightarrow> string \<Rightarrow> json \<Rightarrow> json" where
  "get_or info k d = (case info k of None \<Rightarrow> d | Some v \<Rightarrow> v)"

definition stock_info_of :: "string \<Rightarrow> (string \<rightharpoonup> json) \<Rightarrow> json" where
  "stock_info_of symbol info =
     JObj [(''symbol'', JStr (upper symbol)),
           (''companyName'', get_or info ''longName'' (JStr [])),
           (''sector'', get_or info ''sector'' (JStr [])),
           (''industry'', get_or info ''industry'' (JStr [])),
           (''marketCap'', get_or info ''marketCap'' (JNum 0)),
           (''peRatio'', get_or info ''trailingPE'' (JNum 0)),
           (''dividendYield'', get_or info ''dividendYield'' (JNum 0)),
           (''beta'', get_or info ''beta'' (JNum 0)),
           (''week52High'', get_or info ''fiftyTwoWeekHigh'' (JNum 0)),
           (''week52Low'', get_or info ''fiftyTwoWeekLow'' (JNum 0)),
           (''avgVolume'', get_or info ''averageVolume'' (JNum 0)),
           (''description'', get_or info ''longBusinessSummary'' (JStr []))]"

text \<open>
  The endpoint \<open>get_stock_info\<close>: \<open>yf_info symbol\<close> is what \<^verbatim>\<open>yf.Ticker(symbol).info\<close>
  gives, \<open>None\<close> when it raises. The result is the response and the store afterwards. The
  time stamp of the body is left out.
\<close>

definition get_stock_info ::
  "'s service \<Rightarrow> (string \<Rightarrow> (string \<rightharpoonup> json) option) \<Rightarrow> 's \<Rightarrow> string \<Rightarrow> json http \<times> 's" where
  "get_stock_info env yf_info st symbol =
     (let cache_key_name = ''info:'' @ symbol;
          cached = get_cached_data env st cache_key_name
      in if truthy cached then (Ok cached, st)
         else
           (case yf_info symbol of
              None \<Rightarrow> (Failed 500, st)
            | Some info \<Rightarrow>
                let stock_info = stock_info_of symbol info
                in (Ok stock_info, set_cached_data env st cache_key_name stock_info 3600)))"

text \<open>
  The endpoint \<open>get_history\<close>, with the period and the interval as the request gives them
  (or their defaults). \<open>yf_history symbol period interval\<close> is what
  \<^verbatim>\<open>yf.Ticker(symbol).history(period=period, interval=interval)\<close> gives, \<open>None\<close> when it
  raises. The time stamp of the body is left out.
\<close>

definition cache_key :: "string \<Rightarrow> string \<Rightarrow> string \<Rightarrow> string" where
  "cache_key symbol period interval =
     ''stock_data:'' @ symbol @ '':'' @ period @ '':'' @ interval"

text \<open>\<^verbatim>\<open>int(x)\<close> on a float: truncation towards zero.\<close>

definition py_trunc :: "rat \<Rightarrow> int" where
  "py_trunc r = (if 0 \<le> r then \<lfloor>r\<rfloor> else \<lceil>r\<rceil>)"

definition chart_point :: "hist_row \<Rightarrow> json" where
  "chart_point row =
     JObj [(''time'', JNum (of_int (h_time row))),
           (''open'', JNum (h_open row)),
           (''high'', JNum (h_high row)),
           (''low'', JNum (h_low row)),
           (''close'', JNum (h_close row)),
           (''volume'', JNum (of_int (case h_volume row of None \<Rightarrow> 0 | Some v \<Rightarrow> py_trunc v)))]"

definition history_body :: "string \<Rightarrow> string \<Rightarrow> string \<Rightarrow> hist_row list \<Rightarrow> json" where
  "history_body symbol period interval hist =
     JObj [(''symbol'', JStr (upper symbol)),
           (''data'', JArr (map chart_point hist)),
           (''period'', JStr period),
           (''interval'', JStr interval)]"

definition history_ttl :: "string \<Rightarrow> int" where
  "history_ttl interval = (if interval \<in> {''1m'', ''2m'', ''5m''} then 60 else 300)"

definition get_history ::
  "'s service \<Rightarrow> (string \<Rightarrow> string \<Rightarrow> string \<Rightarrow> hist_row list option) \<Rightarrow> 's
     \<Rightarrow> string \<Rightarrow> string \<Rightarrow> string \<Rightarrow> json http \<times> 's" where
  "get_history env yf_history st symbol period interval =
     (let cache_key_name = cache_key symbol period interval;
          cached = get_cached_data env st cache_key_name
      in if truthy cached then (Ok cached, st)
         else
           (case yf_history symbol period interval of
              None \<Rightarrow> (Failed 500, st)
            | Some hist \<Rightarrow>
                if hist = [] then (Failed 404, st)
                else
                  let response_data = history_body symbol period interval hist;
                      ttl = history_ttl interval
                  in (Ok response_data,
                      set_cached_data env st cache_key_name response_data ttl)))"

section \<open>Notions used to state the properties\<close>



subsection \<open>Concrete inputs\<close>

definition flat_candle :: "int \<Rightarrow> rat \<Rightarrow> candle" where
  "flat_candle t p =
     \<lparr>c_time = t, c_open = p, c_high = p, c_low = p, c_close = p, c_vwap = p,
      c_volume = 1, c_trades = 1\<rparr>"

definition flat_row :: "int \<Rightarrow> rat \<Rightarrow> hist_row" where
  "flat_row t p =
     \<lparr>h_time = t, h_open = p, h_high = p, h_low = p, h_close = p, h_volume = Some 1\<rparr>"


text \<open>Fifty candles and fifty history rows closing at 0, 1, 2, ...\<close>

definition ramp_candles :: "candle list" where
  "ramp_candles = map (\<lambda>i. flat_candle (int i) (of_nat i)) [0..<50]"


text \<open>Thirty candles and thirty history rows closing at 100.\<close>

definition flat_candles_30 :: "candle list" where
  "flat_candles_30 = map (\<lambda>i. flat_candle (int i) 100) [0..<30]"

definition flat_rows_30 :: "hist_row list" where
  "flat_rows_30 = map (\<lambda>i. flat_row (int i) 100) [0..<30]"

definition py_number :: "rat \<Rightarrow> pyobj" where
  "py_number r = Obj (Some r) (Some (if 0 \<le> r then \<lfloor>r\<rfloor> else \<lceil>r\<rceil>)) None"

definition py_list :: "pyobj list \<Rightarrow> pyobj" where
  "py_list xs = Obj None None (Some xs)"

definition py_opaque :: pyobj where
  "py_opaque = Obj None None None"

definition raw_candle :: "int \<Rightarrow> rat \<Rightarrow> pyobj" where
  "raw_candle t p =
     py_list [py_number (of_int t), py_number p, py_number p, py_number p, py_number p,
              py_number p, py_number 1, py_number 1]"

definition raw_trade :: "rat \<Rightarrow> pyobj" where
  "raw_trade p = py_list [py_number p, py_number 1, py_number 0, py_opaque, py_opaque, py_opaque]"

definition raw_ticker :: "string \<rightharpoonup> pyobj" where
  "raw_ticker =
     [''c'' \<mapsto> py_list [py_number 105, py_number 1],
      ''o'' \<mapsto> py_number 100,
      ''h'' \<mapsto> py_list [py_number 110, py_number 110],
      ''l'' \<mapsto> py_list [py_number 90, py_number 90],
      ''v'' \<mapsto> py_list [py_number 5, py_number 7],
      ''p'' \<mapsto> py_list [py_number 101, py_number 102],
      ''t'' \<mapsto> py_list [py_number 3, py_number 4],
      ''b'' \<mapsto> py_list [py_number 104, py_number 1, py_number 1],
      ''a'' \<mapsto> py_list [py_number 106, py_number 1, py_number 1]]"

definition probe_kraken :: kraken where
  "probe_kraken =
     \<lparr>get_pair_ticker = (\<lambda>p. Some [''XXBTZUSD'' \<mapsto> raw_ticker]),
      fetch_ohlc = (\<lambda>p i s. Some [''XXBTZUSD'' \<mapsto>
                      py_list [raw_candle 3 30, raw_candle 1 10, raw_candle 2 20]]),
      fetch_order_book = (\<lambda>p. None),
      fetch_recent_trades = (\<lambda>p. Some [''XXBTZUSD'' \<mapsto>
                      py_list [raw_trade 1, raw_trade 2, raw_trade 3]])\<rparr>"

definition ascending_kraken :: kraken where
  "ascending_kraken =
     probe_kraken\<lparr>fetch_ohlc := (\<lambda>p i s. Some [''XXBTZUSD'' \<mapsto>
                      py_list [raw_candle 1 10, raw_candle 2 20, raw_candle 3 30]])\<rparr>"

definition flat_trade :: "rat \<Rightarrow> trade" where
  "flat_trade p =
     \<lparr>tr_price = p, tr_volume = 1, tr_time = 0,
      tr_side = py_opaque, tr_type = py_opaque, tr_misc = py_opaque\<rparr>"

definition bad_trades_kraken :: kraken where
  "bad_trades_kraken =
     probe_kraken\<lparr>fetch_recent_trades := (\<lambda>p. Some [''XXBTZUSD'' \<mapsto> py_list [py_opaque]])\<rparr>"

definition no_open_kraken :: kraken where
  "no_open_kraken =
     probe_kraken\<lparr>get_pair_ticker := (\<lambda>p. Some [''XXBTZUSD'' \<mapsto> raw_ticker(''o'' := None)])\<rparr>"

definition zero_open_kraken :: kraken where
  "zero_open_kraken =
     probe_kraken\<lparr>get_pair_ticker := (\<lambda>p. Some [''XXBTZUSD'' \<mapsto> raw_ticker(''o'' \<mapsto> py_number 0)])\<rparr>"

definition probe_snapshot :: "rat \<Rightarrow> ticker_snapshot" where
  "probe_snapshot opn =
     \<lparr>t_symbol = ''XXBTZUSD'', t_price = 105, t_open = opn, t_high = 110, t_low = 90,
      t_volume = 7, t_vwap = 102, t_trades = 4, t_bid = 104, t_ask = 106,
      t_change = None, t_change_percent = None, t_spread = None\<rparr>"

text \<open>A provider whose every call raises.\<close>

definition down_kraken :: kraken where
  "down_kraken =
     \<lparr>get_pair_ticker = (\<lambda>p. None),
      fetch_ohlc = (\<lambda>p i s. None),
      fetch_order_book = (\<lambda>p. None),
      fetch_recent_trades = (\<lambda>p. None)\<rparr>"

text \<open>A Redis client whose every call raises, and services around it.\<close>

definition broken_redis :: "unit redis" where
  "broken_redis = \<lparr>rget = (\<lambda>st k. None), rsetex = (\<lambda>st k ttl v. None)\<rparr>"

definition broken_service :: "unit service" where
  "broken_service =
     \<lparr>redis_client = Some broken_redis, json_loads = (\<lambda>s. None), json_dumps = (\<lambda>j. Some [])\<rparr>"

definition uncached_service :: "unit service" where
  "uncached_service =
     \<lparr>redis_client = None, json_loads = (\<lambda>s. None), json_dumps = (\<lambda>j. Some [])\<rparr>"

definition probe_info :: "string \<Rightarrow> (string \<rightharpoonup> json) option" where
  "probe_info symbol = Some [''longName'' \<mapsto> JStr ''Apple Inc.'']"

definition probe_history :: "string \<Rightarrow> string \<Rightarrow> string \<Rightarrow> hist_row list option" where
  "probe_history symbol period interval = Some [flat_row 1 100, flat_row 2 100]"

section \<open>Rolling means\<close>





section \<open>Exponentially weighted means\<close>

lemma ewm_loop_length: "length (ewm_loop alpha w ow xs) = length xs"
  by (induction xs arbitrary: w ow) (simp_all add: Let_def)

lemma ewm_mean_length: "length (ewm_mean n xs) = length xs"
  by (cases xs) (simp_all add: ewm_mean_def ewm_loop_length)

lemma series_sub_length: "length (series_sub xs ys) = min (length xs) (length ys)"
  by (simp add: series_sub_def)

lemma series_sub_nth:
  "i < length xs \<Longrightarrow> i < length ys \<Longrightarrow> series_sub xs ys ! i = xs ! i - ys ! i"
  by (simp add: series_sub_def)






section \<open>The indicator engines\<close>

lemma calc_full:
  assumes "50 \<le> length data"
  shows "calculate_technical_indicators data =
      \<lparr>sma_20 = rolling_mean 20 (map c_close data),
       sma_50 = rolling_mean 50 (map c_close data),
       ema_12 = ewm_mean 12 (map c_close data),
       ema_26 = ewm_mean 26 (map c_close data),
       macd = Macd (series_sub (ewm_mean 12 (map c_close data)) (ewm_mean 26 (map c_close data)))
                (ewm_mean 9 (series_sub (ewm_mean 12 (map c_close data)) (ewm_mean 26 (map c_close data))))
                (series_sub (series_sub (ewm_mean 12 (map c_close data)) (ewm_mean 26 (map c_close data)))
                   (ewm_mean 9 (series_sub (ewm_mean 12 (map c_close data)) (ewm_mean 26 (map c_close data))))),
       rsi = rsi_series (map c_close data)\<rparr>"
proof -
  have "data \<noteq> []" using assms by auto
  then show ?thesis using assms by (simp add: calculate_technical_indicators_def Let_def)
qed

lemma calc_short: "length data < 50 \<Longrightarrow> calculate_technical_indicators data = empty_bundle"
  by (simp add: calculate_technical_indicators_def)



lemma ramp_candles_len: "length ramp_candles = 50" by (simp add: ramp_candles_def)
lemma flat_candles_len: "length flat_candles_30 = 30" by (simp add: flat_candles_30_def)











text \<open>
  Claim C8. For every sequence of at least 50 candles (those for which the crypto engine
  computes indicators), the MACD entry holds three series of the length of the input, the
  line is EMA(12) minus EMA(26), the signal is EMA(9) of the line, and at every index the
  histogram is the line minus the signal.
\<close>
theorem macd_histogram_identity:
  assumes "50 \<le> length data"
  shows "macd (calculate_technical_indicators data) \<noteq> MacdEmpty
       \<and> macd_line (macd (calculate_technical_indicators data)) =
           series_sub (ema_12 (calculate_technical_indicators data))
                      (ema_26 (calculate_technical_indicators data))
       \<and> signal_line (macd (calculate_technical_indicators data)) =
           ewm_mean 9 (macd_line (macd (calculate_technical_indicators data)))
       \<and> length (macd_line (macd (calculate_technical_indicators data))) = length data
       \<and> length (signal_line (macd (calculate_technical_indicators data))) = length data
       \<and> length (macd_histogram (macd (calculate_technical_indicators data))) = length data
       \<and> (\<forall>i<length data.
             macd_line (macd (calculate_technical_indicators data)) ! i =
               ema_12 (calculate_technical_indicators data) ! i
               - ema_26 (calculate_technical_indicators data) ! i)
       \<and> (\<forall>i<length data.
             macd_histogram (macd (calculate_technical_indicators data)) ! i =
               macd_line (macd (calculate_technical_indicators data)) ! i
               - signal_line (macd (calculate_technical_indicators data)) ! i)"
  by (simp add: calc_full[OF assms] series_sub_length ewm_mean_length series_sub_nth)

theorem macd_histogram_identity_witness:
  "50 \<le> length ramp_candles
   \<and> length (macd_histogram (macd (calculate_technical_indicators ramp_candles))) = 50
   \<and> macd_histogram (macd (calculate_technical_indicators ramp_candles)) ! 49 =
       macd_line (macd (calculate_technical_indicators ramp_candles)) ! 49
       - signal_line (macd (calculate_technical_indicators ramp_candles)) ! 49"
proof -
  have h: "50 \<le> length ramp_candles" by (simp add: ramp_candles_len)
  from macd_histogram_identity[OF h] show ?thesis by (simp add: ramp_candles_len)
qed

text \<open>
  Claim C5, as amended. For thirty rows closing at 100, the equities engine answers with
  thirty points whose SMA(20) at index 19 is exactly 100 and whose RSI is null at every
  position: the average loss is undefined during the warm-up of the 14-window (the first 13
  positions) and 0 afterwards, so the RSI series is NaN throughout, from the warm-up and
  from \<open>0 / 0\<close>. The crypto engine computes nothing below 50
  candles and returns the empty bundle for the thirty candles.
\<close>
theorem flat_thirty_indicators:
  "(case get_technical_indicators (Some flat_rows_30) of
      Ok points \<Rightarrow> length points = 30 \<and> tp_sma20 (points ! 19) = Some 100
                    \<and> map tp_rsi points = replicate 30 None
    | Failed _ \<Rightarrow> False)
   \<and> rolling_mean 14 (map loss_of (diff (map h_close flat_rows_30)))
       = replicate 13 None @ replicate 17 (Some 0)
   \<and> rsi_series (map h_close flat_rows_30) = replicate 30 NaN
   \<and> calculate_technical_indicators flat_candles_30 = empty_bundle"
proof -
  have l: "rolling_mean 14 (map loss_of (diff (map h_close flat_rows_30)))
       = replicate 13 None @ replicate 17 (Some 0)"
    by code_simp
  have a: "(case get_technical_indicators (Some flat_rows_30) of
      Ok points \<Rightarrow> length points = 30 \<and> tp_sma20 (points ! 19) = Some 100
                    \<and> map tp_rsi points = replicate 30 None
    | Failed _ \<Rightarrow> False)"
    by code_simp
  have b: "rsi_series (map h_close flat_rows_30) = replicate 30 NaN"
    by code_simp
  have c: "calculate_technical_indicators flat_candles_30 = empty_bundle"
    by (simp add: calc_short flat_candles_len)
  from a l b c show ?thesis by blast
qed

text \<open>
  Claim C5 as stated fails on the crypto engine: for the thirty candles its SMA(20) output
  is the empty list, which has no index 19.
\<close>
theorem flat_thirty_crypto_counterexample:
  "length flat_candles_30 = 30
   \<and> sma_20 (calculate_technical_indicators flat_candles_30) = []
   \<and> \<not> 19 < length (sma_20 (calculate_technical_indicators flat_candles_30))"
  by (simp add: calc_short flat_candles_len empty_bundle_def)

section \<open>The candle normalizer\<close>

lemma process_raw_candle: "process_candle (raw_candle t p) = Some (flat_candle t p)"
  by (simp add: process_candle_def raw_candle_def py_list_def py_number_def float_at_def
      int_at_def item_at_def flat_candle_def)

lemma get_ohlc_data_rows:
  assumes "fetch_ohlc K pair (kraken_interval interval) (since_param since) = Some payload"
    and "payload pair = Some candles"
    and "process_candles candles = Some rows"
  shows "get_ohlc_data K pair interval since limit =
           \<lparr>o_symbol = pair, o_data = sort_key c_time (apply_limit limit rows),
            o_interval = Some interval, o_count = length (apply_limit limit rows)\<rparr>"
  using assms by (simp add: get_ohlc_data_def Let_def)

lemma apply_limit_nonpos: "l \<le> 0 \<Longrightarrow> apply_limit (Some l) xs = apply_limit None xs"
  by (simp add: apply_limit_def)

lemma apply_limit_pos: "0 < l \<Longrightarrow> apply_limit (Some l) xs = drop (length xs - nat l) xs"
  by (simp add: apply_limit_def)

lemma apply_limit_None: "apply_limit None xs = xs"
  by (simp add: apply_limit_def)

lemma probe_ohlc:
  "get_ohlc_data probe_kraken ''XXBTZUSD'' 60 None limit =
     \<lparr>o_symbol = ''XXBTZUSD'',
      o_data = sort_key c_time (apply_limit limit [flat_candle 3 30, flat_candle 1 10, flat_candle 2 20]),
      o_interval = Some 60,
      o_count = length (apply_limit limit [flat_candle 3 30, flat_candle 1 10, flat_candle 2 20])\<rparr>"
  by (rule get_ohlc_data_rows[where payload = "[''XXBTZUSD'' \<mapsto>
                      py_list [raw_candle 3 30, raw_candle 1 10, raw_candle 2 20]]"
        and candles = "py_list [raw_candle 3 30, raw_candle 1 10, raw_candle 2 20]"])
     (simp_all add: probe_kraken_def process_candles_def py_list_def process_raw_candle)

lemma ascending_ohlc:
  "get_ohlc_data ascending_kraken ''XXBTZUSD'' 60 None limit =
     \<lparr>o_symbol = ''XXBTZUSD'',
      o_data = sort_key c_time (apply_limit limit [flat_candle 1 10, flat_candle 2 20, flat_candle 3 30]),
      o_interval = Some 60,
      o_count = length (apply_limit limit [flat_candle 1 10, flat_candle 2 20, flat_candle 3 30])\<rparr>"
  by (rule get_ohlc_data_rows[where payload = "[''XXBTZUSD'' \<mapsto>
                      py_list [raw_candle 1 10, raw_candle 2 20, raw_candle 3 30]]"
        and candles = "py_list [raw_candle 1 10, raw_candle 2 20, raw_candle 3 30]"])
     (simp_all add: ascending_kraken_def probe_kraken_def process_candles_def py_list_def process_raw_candle)

text \<open>
  Claim C9. A limit of 0 or below leaves the result of \<open>get_ohlc_data\<close> as it is without a
  limit: the whole candle sequence, the same count and interval.
\<close>
theorem nonpositive_limit_keeps_all:
  assumes "l \<le> 0"
  shows "get_ohlc_data K pair interval since (Some l) = get_ohlc_data K pair interval since None"
  using assms by (simp add: get_ohlc_data_def apply_limit_nonpos Let_def split: option.splits)

theorem nonpositive_limit_keeps_all_witness:
  "(0::int) \<le> 0 \<and> (-2::int) \<le> 0
   \<and> map c_time (o_data (get_ohlc_data probe_kraken ''XXBTZUSD'' 60 None (Some 0))) = [1, 2, 3]
   \<and> map c_time (o_data (get_ohlc_data probe_kraken ''XXBTZUSD'' 60 None (Some (-2)))) = [1, 2, 3]
   \<and> map c_time (o_data (get_ohlc_data probe_kraken ''XXBTZUSD'' 60 None None)) = [1, 2, 3]"
proof -
  have h0: "(0::int) \<le> 0" and h2: "(-2::int) \<le> 0" by simp_all
  have full: "map c_time (o_data (get_ohlc_data probe_kraken ''XXBTZUSD'' 60 None None)) = [1, 2, 3]"
    by (simp add: probe_ohlc apply_limit_None flat_candle_def)
  show ?thesis
    using nonpositive_limit_keeps_all[OF h0, of probe_kraken "''XXBTZUSD''" 60 None]
      nonpositive_limit_keeps_all[OF h2, of probe_kraken "''XXBTZUSD''" 60 None] full
    by simp
qed

text \<open>
  Claim C2, as amended. For a payload whose rows are in ascending order of time, and for
  \<open>k\<close> from 1 up to the number of candles, \<open>get_ohlc_data\<close> with limit \<open>k\<close> returns the
  last \<open>k\<close> entries of what it returns without a limit, and counts \<open>k\<close>.
\<close>
theorem limit_keeps_tail_of_ascending:
  assumes "fetch_ohlc K pair (kraken_interval interval) (since_param since) = Some payload"
    and "payload pair = Some candles"
    and "process_candles candles = Some rows"
    and "sorted (map c_time rows)"
    and "1 \<le> k"
    and "nat k \<le> length (o_data (get_ohlc_data K pair interval since None))"
  shows "o_data (get_ohlc_data K pair interval since (Some k)) =
           drop (length (o_data (get_ohlc_data K pair interval since None)) - nat k)
                (o_data (get_ohlc_data K pair interval since None))
       \<and> o_count (get_ohlc_data K pair interval since (Some k)) = nat k"
proof -
  have full: "o_data (get_ohlc_data K pair interval since None) = rows"
    using assms(4) by (simp add: get_ohlc_data_rows[OF assms(1-3)] apply_limit_None sort_key_id_if_sorted)
  have "sorted (drop (length rows - nat k) (map c_time rows))"
    using assms(4) by (rule sorted_wrt_drop)
  then have "sorted (map c_time (drop (length rows - nat k) rows))"
    by (simp add: drop_map)
  then have lim: "o_data (get_ohlc_data K pair interval since (Some k)) = drop (length rows - nat k) rows"
    using assms(5) by (simp add: get_ohlc_data_rows[OF assms(1-3)] apply_limit_pos sort_key_id_if_sorted)
  have cnt: "o_count (get_ohlc_data K pair interval since (Some k)) = nat k"
    using assms(5,6) unfolding full by (simp add: get_ohlc_data_rows[OF assms(1-3)] apply_limit_pos)
  from full lim cnt show ?thesis by simp
qed

theorem limit_keeps_tail_of_ascending_witness:
  "map c_time (o_data (get_ohlc_data ascending_kraken ''XXBTZUSD'' 60 None None)) = [1, 2, 3]
   \<and> (1::int) \<le> 2
   \<and> map c_time (o_data (get_ohlc_data ascending_kraken ''XXBTZUSD'' 60 None (Some 2))) = [2, 3]
   \<and> o_count (get_ohlc_data ascending_kraken ''XXBTZUSD'' 60 None (Some 2)) = 2"
proof -
  let ?rows = "[flat_candle 1 10, flat_candle 2 20, flat_candle 3 30]"
  let ?cs = "py_list [raw_candle 1 10, raw_candle 2 20, raw_candle 3 30]"
  have a1: "fetch_ohlc ascending_kraken ''XXBTZUSD'' (kraken_interval 60) (since_param None)
              = Some [''XXBTZUSD'' \<mapsto> ?cs]"
    by (simp add: ascending_kraken_def probe_kraken_def)
  have a2: "[''XXBTZUSD'' \<mapsto> ?cs] ''XXBTZUSD'' = Some ?cs" by simp
  have a3: "process_candles ?cs = Some ?rows"
    by (simp add: process_candles_def py_list_def process_raw_candle)
  have a4: "sorted (map c_time ?rows)" by (simp add: flat_candle_def)
  have a5: "(1::int) \<le> 2" by simp
  have full: "o_data (get_ohlc_data ascending_kraken ''XXBTZUSD'' 60 None None) = ?rows"
    by (simp add: ascending_ohlc apply_limit_None flat_candle_def)
  have a6: "nat 2 \<le> length (o_data (get_ohlc_data ascending_kraken ''XXBTZUSD'' 60 None None))"
    unfolding full by simp
  from limit_keeps_tail_of_ascending[OF a1 a2 a3 a4 a5 a6] full a5
  show ?thesis by (simp add: flat_candle_def)
qed

text \<open>
  Claim C2 as stated fails. The limit is applied before the sort: on rows with times 3, 1, 2
  the limit 1 keeps the row of time 2, while the last entry of the sorted sequence has time
  3. And the limit 0 is no limit: all three candles come back, not the last zero of them.
\<close>
theorem limit_tail_counterexample:
  "map c_time (o_data (get_ohlc_data probe_kraken ''XXBTZUSD'' 60 None None)) = [1, 2, 3]
   \<and> map c_time (o_data (get_ohlc_data probe_kraken ''XXBTZUSD'' 60 None (Some 1))) = [2]
   \<and> map c_time (drop (3 - 1) (o_data (get_ohlc_data probe_kraken ''XXBTZUSD'' 60 None None))) = [3]
   \<and> map c_time (o_data (get_ohlc_data probe_kraken ''XXBTZUSD'' 60 None (Some 0))) = [1, 2, 3]
   \<and> drop (3 - 0) (o_data (get_ohlc_data probe_kraken ''XXBTZUSD'' 60 None None)) = []"
  by (simp add: probe_ohlc apply_limit_def flat_candle_def)

section \<open>Recent trades\<close>

lemma those_map_total:
  "(\<forall>x\<in>set xs. f x \<noteq> None) \<Longrightarrow> those (map f xs) = Some (map (\<lambda>x. the (f x)) xs)"
  by (induction xs) auto

lemma those_map_None:
  "\<not> (\<forall>x\<in>set xs. f x \<noteq> None) \<Longrightarrow> those (map f xs) = None"
  by (induction xs) (auto split: option.splits)

lemma get_recent_trades_rows:
  assumes "fetch_recent_trades K pair = Some trades"
    and "trades pair = Some trade_data"
    and "items_of trade_data = Some rows"
  shows "get_recent_trades K pair limit =
           map_option (\<lambda>ts. \<lparr>rt_symbol = pair, rt_trades = ts, rt_count = length ts\<rparr>)
             (those (map format_trade (slice_to limit rows)))"
  using assms by (cases "those (map format_trade (slice_to limit rows))")
    (simp_all add: get_recent_trades_def)

lemma format_raw_trade: "format_trade (raw_trade p) = Some (flat_trade p)"
  by (simp add: format_trade_def raw_trade_def py_list_def py_number_def float_at_def
      item_at_def flat_trade_def)

lemma probe_trades:
  "get_recent_trades probe_kraken ''XXBTZUSD'' limit =
     map_option (\<lambda>ts. \<lparr>rt_symbol = ''XXBTZUSD'', rt_trades = ts, rt_count = length ts\<rparr>)
       (those (map format_trade (slice_to limit [raw_trade 1, raw_trade 2, raw_trade 3])))"
  by (rule get_recent_trades_rows[where trades = "[''XXBTZUSD'' \<mapsto>
                      py_list [raw_trade 1, raw_trade 2, raw_trade 3]]"
        and trade_data = "py_list [raw_trade 1, raw_trade 2, raw_trade 3]"])
     (simp_all add: probe_kraken_def py_list_def)

text \<open>
  Claim C10, as amended. When the reply holds the pair with a list of rows and the limit is
  not negative, \<open>get_recent_trades\<close> returns the first \<open>min(limit, n)\<close> rows in the order
  of the provider, formatted, and counts them, provided each of these rows can be formatted;
  if one of them cannot, the result is absent.
\<close>
theorem recent_trades_head:
  assumes "fetch_recent_trades K pair = Some trades"
    and "trades pair = Some trade_data"
    and "items_of trade_data = Some rows"
    and "0 \<le> limit"
  shows "get_recent_trades K pair limit =
           (if \<forall>r\<in>set (take (nat limit) rows). format_trade r \<noteq> None
            then Some \<lparr>rt_symbol = pair,
                       rt_trades = map (\<lambda>r. the (format_trade r)) (take (nat limit) rows),
                       rt_count = min (nat limit) (length rows)\<rparr>
            else None)"
proof (cases "\<forall>r\<in>set (take (nat limit) rows). format_trade r \<noteq> None")
  case True
  then have "those (map format_trade (take (nat limit) rows))
               = Some (map (\<lambda>r. the (format_trade r)) (take (nat limit) rows))"
    by (rule those_map_total)
  then show ?thesis using True assms(4)
    by (simp add: get_recent_trades_rows[OF assms(1-3)] slice_to_def min.commute)
next
  case False
  then have "those (map format_trade (take (nat limit) rows)) = None"
    by (rule those_map_None)
  then show ?thesis using False assms(4)
    by (simp add: get_recent_trades_rows[OF assms(1-3)] slice_to_def)
qed

theorem recent_trades_head_witness:
  "(0::int) \<le> 2
   \<and> get_recent_trades probe_kraken ''XXBTZUSD'' 2 =
       Some \<lparr>rt_symbol = ''XXBTZUSD'', rt_trades = [flat_trade 1, flat_trade 2], rt_count = 2\<rparr>"
proof -
  let ?td = "py_list [raw_trade 1, raw_trade 2, raw_trade 3]"
  have a1: "fetch_recent_trades probe_kraken ''XXBTZUSD'' = Some [''XXBTZUSD'' \<mapsto> ?td]"
    by (simp add: probe_kraken_def)
  have a2: "[''XXBTZUSD'' \<mapsto> ?td] ''XXBTZUSD'' = Some ?td" by simp
  have a3: "items_of ?td = Some [raw_trade 1, raw_trade 2, raw_trade 3]"
    by (simp add: py_list_def)
  have a4: "(0::int) \<le> 2" by simp
  have ok: "\<forall>r\<in>set (take (nat 2) [raw_trade 1, raw_trade 2, raw_trade 3]). format_trade r \<noteq> None"
    by (simp add: format_raw_trade take_Suc_conv_app_nth numeral_2_eq_2)
  from recent_trades_head[OF a1 a2 a3 a4] ok a4 show ?thesis
    by (simp add: format_raw_trade numeral_2_eq_2)
qed

text \<open>
  Claim C10 as stated fails for a negative limit, where the slice \<^verbatim>\<open>[:limit]\<close> drops rows
  from the end (limit -1 on three rows returns two), and for a row that cannot be
  formatted, where nothing is returned.
\<close>
theorem recent_trades_counterexample:
  "map_option rt_count (get_recent_trades probe_kraken ''XXBTZUSD'' (- 1)) = Some 2
   \<and> min (- 1) (3::int) = - 1
   \<and> fetch_recent_trades bad_trades_kraken ''XXBTZUSD'' = Some [''XXBTZUSD'' \<mapsto> py_list [py_opaque]]
   \<and> get_recent_trades bad_trades_kraken ''XXBTZUSD'' 1 = None"
proof -
  have a: "map_option rt_count (get_recent_trades probe_kraken ''XXBTZUSD'' (- 1)) = Some 2"
    by (simp add: probe_trades slice_to_def format_raw_trade)
  have b: "fetch_recent_trades bad_trades_kraken ''XXBTZUSD'' = Some [''XXBTZUSD'' \<mapsto> py_list [py_opaque]]"
    by (simp add: bad_trades_kraken_def)
  have "format_trade py_opaque = None"
    by (simp add: format_trade_def py_opaque_def float_at_def item_at_def)
  then have c: "get_recent_trades bad_trades_kraken ''XXBTZUSD'' 1 = None"
    by (simp add: get_recent_trades_rows[OF b, of "py_list [py_opaque]" "[py_opaque]"]
        py_list_def slice_to_def)
  from a b c show ?thesis by simp
qed


section \<open>The ticker\<close>

lemma format_ticker_Some:
  assumes "format_ticker pair tk = Some t"
  shows "t_symbol t = pair \<and> t_change t = None \<and> t_change_percent t = None \<and> t_spread t = None
       \<and> key_float_at tk ''c'' 0 = Some (t_price t)
       \<and> key_float tk ''o'' = Some (t_open t)
       \<and> key_float_at tk ''b'' 0 = Some (t_bid t)
       \<and> key_float_at tk ''a'' 0 = Some (t_ask t)"
  using assms unfolding format_ticker_def
  by (auto simp: bind_eq_Some_conv)

lemma format_ticker_missing:
  assumes "tk ''o'' = None \<or> tk ''b'' = None \<or> tk ''a'' = None"
  shows "format_ticker pair tk = None"
proof (cases "format_ticker pair tk")
  case None
  then show ?thesis .
next
  case (Some t)
  from format_ticker_Some[OF Some] assms show ?thesis
    by (auto simp: key_float_def key_float_at_def)
qed

lemma add_derived_fields:
  "t_change t = None \<Longrightarrow> t_change_percent t = None \<Longrightarrow> t_spread t = None \<Longrightarrow>
   t_open (add_derived t) = t_open t \<and> t_price (add_derived t) = t_price t
   \<and> t_bid (add_derived t) = t_bid t \<and> t_ask (add_derived t) = t_ask t
   \<and> t_symbol (add_derived t) = t_symbol t
   \<and> t_change (add_derived t) = (if 0 < t_open t then Some (t_price t - t_open t) else None)
   \<and> t_change_percent (add_derived t) =
        (if 0 < t_open t then Some ((t_price t - t_open t) / t_open t * 100) else None)
   \<and> t_spread (add_derived t) = (if 0 < t_open t then Some (t_ask t - t_bid t) else None)"
  by (simp add: add_derived_def)

lemma get_ticker_Some:
  assumes "get_ticker K pair = Some s"
  shows "\<exists>d tk t. get_pair_ticker K pair = Some d \<and> d pair = Some tk
           \<and> format_ticker pair tk = Some t \<and> s = add_derived t"
  using assms by (auto simp: get_ticker_def split: option.splits)

text \<open>
  Claim C3, as amended. Whenever \<open>get_ticker\<close> returns a snapshot, its price, open, bid
  and ask are the values parsed from the payload, and the derived entries change,
  change_percent and spread are present exactly when the open is positive, with the values
  price - open, change / open * 100 and ask - bid. A ticker without the open, bid or ask
  entry yields no snapshot at all.
\<close>
theorem ticker_derived_fields:
  "(get_ticker K pair = Some s \<longrightarrow>
      t_symbol s = pair
    \<and> (t_change s \<noteq> None \<longleftrightarrow> 0 < t_open s)
    \<and> (t_change_percent s \<noteq> None \<longleftrightarrow> 0 < t_open s)
    \<and> (t_spread s \<noteq> None \<longleftrightarrow> 0 < t_open s)
    \<and> (0 < t_open s \<longrightarrow>
          t_change s = Some (t_price s - t_open s)
        \<and> t_change_percent s = Some ((t_price s - t_open s) / t_open s * 100)
        \<and> t_spread s = Some (t_ask s - t_bid s))
    \<and> (\<exists>d tk. get_pair_ticker K pair = Some d \<and> d pair = Some tk
          \<and> key_float_at tk ''c'' 0 = Some (t_price s)
          \<and> key_float tk ''o'' = Some (t_open s)
          \<and> key_float_at tk ''b'' 0 = Some (t_bid s)
          \<and> key_float_at tk ''a'' 0 = Some (t_ask s)))
   \<and> (get_pair_ticker K pair = Some reply \<and> reply pair = Some ticker
        \<and> (ticker ''o'' = None \<or> ticker ''b'' = None \<or> ticker ''a'' = None)
      \<longrightarrow> get_ticker K pair = None)"
proof (intro conjI impI)
  assume "get_pair_ticker K pair = Some reply \<and> reply pair = Some ticker
        \<and> (ticker ''o'' = None \<or> ticker ''b'' = None \<or> ticker ''a'' = None)"
  then show "get_ticker K pair = None"
    by (simp add: get_ticker_def format_ticker_missing)
next
  assume s: "get_ticker K pair = Some s"
  from get_ticker_Some[OF s] obtain d tk t where
    d: "get_pair_ticker K pair = Some d" "d pair = Some tk"
    and t: "format_ticker pair tk = Some t" and st: "s = add_derived t" by blast
  note f = format_ticker_Some[OF t]
  from f have n: "t_change t = None" "t_change_percent t = None" "t_spread t = None" by simp_all
  note a = add_derived_fields[OF n]
  show "t_symbol s = pair" using a f st by simp
  show "(t_change s \<noteq> None) = (0 < t_open s)" using a st by simp
  show "(t_change_percent s \<noteq> None) = (0 < t_open s)" using a st by simp
  show "(t_spread s \<noteq> None) = (0 < t_open s)" using a st by simp
  show "\<exists>d tk. get_pair_ticker K pair = Some d \<and> d pair = Some tk
          \<and> key_float_at tk ''c'' 0 = Some (t_price s)
          \<and> key_float tk ''o'' = Some (t_open s)
          \<and> key_float_at tk ''b'' 0 = Some (t_bid s)
          \<and> key_float_at tk ''a'' 0 = Some (t_ask s)"
    using d f a st by auto
  assume "0 < t_open s"
  then show "t_change s = Some (t_price s - t_open s)"
    "t_change_percent s = Some ((t_price s - t_open s) / t_open s * 100)"
    "t_spread s = Some (t_ask s - t_bid s)"
    using a st by simp_all
qed

lemma format_raw_ticker:
  "format_ticker ''XXBTZUSD'' (raw_ticker(''o'' \<mapsto> py_number opn)) = Some (probe_snapshot opn)"
  by (simp add: format_ticker_def raw_ticker_def key_float_at_def key_float_def key_int_at_def
      float_at_def int_at_def item_at_def py_list_def py_number_def probe_snapshot_def)

lemma raw_ticker_open: "raw_ticker(''o'' \<mapsto> py_number 100) = raw_ticker"
  by (rule ext) (simp add: raw_ticker_def)

lemma probe_ticker:
  "get_ticker probe_kraken ''XXBTZUSD'' = Some (add_derived (probe_snapshot 100))"
  using format_raw_ticker[of 100]
  by (simp add: get_ticker_def probe_kraken_def raw_ticker_open)

lemma zero_open_ticker:
  "get_ticker zero_open_kraken ''XXBTZUSD'' = Some (probe_snapshot 0)"
  using format_raw_ticker[of 0]
  by (simp add: get_ticker_def zero_open_kraken_def probe_kraken_def add_derived_def probe_snapshot_def)

theorem ticker_derived_fields_witness:
  "get_ticker probe_kraken ''XXBTZUSD'' = Some (add_derived (probe_snapshot 100))
   \<and> 0 < t_open (add_derived (probe_snapshot 100))
   \<and> t_change (add_derived (probe_snapshot 100)) = Some 5
   \<and> t_change_percent (add_derived (probe_snapshot 100)) = Some 5
   \<and> t_spread (add_derived (probe_snapshot 100)) = Some 2
   \<and> get_ticker zero_open_kraken ''XXBTZUSD'' = Some (probe_snapshot 0)
   \<and> t_change (probe_snapshot 0) = None
   \<and> get_pair_ticker no_open_kraken ''XXBTZUSD'' = Some [''XXBTZUSD'' \<mapsto> raw_ticker(''o'' := None)]
   \<and> (raw_ticker(''o'' := None)) ''o'' = None
   \<and> get_ticker no_open_kraken ''XXBTZUSD'' = None"
proof -
  have p: "0 < t_open (add_derived (probe_snapshot 100))"
    by (simp add: add_derived_def probe_snapshot_def)
  have vals: "t_price (add_derived (probe_snapshot 100)) = 105"
    "t_open (add_derived (probe_snapshot 100)) = 100"
    "t_ask (add_derived (probe_snapshot 100)) = 106"
    "t_bid (add_derived (probe_snapshot 100)) = 104"
    by (simp_all add: add_derived_def probe_snapshot_def)
  from ticker_derived_fields[of probe_kraken "''XXBTZUSD''" "add_derived (probe_snapshot 100)"]
    probe_ticker p
  have a: "t_change (add_derived (probe_snapshot 100)) = Some 5
    \<and> t_change_percent (add_derived (probe_snapshot 100)) = Some 5
    \<and> t_spread (add_derived (probe_snapshot 100)) = Some 2"
    unfolding vals by simp
  from ticker_derived_fields[of zero_open_kraken "''XXBTZUSD''" "probe_snapshot 0"] zero_open_ticker
  have z: "(t_change (probe_snapshot 0) \<noteq> None) = (0 < t_open (probe_snapshot 0))" by blast
  have z': "t_change (probe_snapshot 0) = None" using z by (simp add: probe_snapshot_def)
  have g: "get_pair_ticker no_open_kraken ''XXBTZUSD'' = Some [''XXBTZUSD'' \<mapsto> raw_ticker(''o'' := None)]"
    by (simp add: no_open_kraken_def)
  have m: "(raw_ticker(''o'' := None)) ''o'' = None" by simp
  from ticker_derived_fields[of no_open_kraken "''XXBTZUSD''" _
      "[''XXBTZUSD'' \<mapsto> raw_ticker(''o'' := None)]" "raw_ticker(''o'' := None)"] g m
  have n: "get_ticker no_open_kraken ''XXBTZUSD'' = None" by simp
  from probe_ticker p a zero_open_ticker z' g m n show ?thesis by blast
qed

text \<open>
  Claim C3 as stated fails: for a ticker that lacks only the open entry, \<open>get_ticker\<close>
  returns nothing, not a snapshot without the derived entries.
\<close>
theorem ticker_missing_open_counterexample:
  "get_pair_ticker no_open_kraken ''XXBTZUSD'' = Some [''XXBTZUSD'' \<mapsto> raw_ticker(''o'' := None)]
   \<and> (raw_ticker(''o'' := None)) ''o'' = None
   \<and> (raw_ticker(''o'' := None)) ''b'' = raw_ticker ''b''
   \<and> get_ticker no_open_kraken ''XXBTZUSD'' = None"
  by (simp add: no_open_kraken_def get_ticker_def format_ticker_def key_float_def
      bind_eq_None_conv)

section \<open>The market summary\<close>

lemma apply_limit_length: "0 < l \<Longrightarrow> length (apply_limit (Some l) xs) \<le> nat l"
  by (simp add: apply_limit_def)

lemma get_ohlc_data_length:
  "0 < l \<Longrightarrow> length (o_data (get_ohlc_data K pair interval since (Some l))) \<le> nat l"
  by (simp add: get_ohlc_data_def ohlc_empty_def Let_def apply_limit_length split: option.splits)

lemma get_ohlc_data_down:
  assumes "fetch_ohlc K pair (kraken_interval interval) (since_param since) = None
         \<or> (\<exists>reply. fetch_ohlc K pair (kraken_interval interval) (since_param since) = Some reply
               \<and> reply pair = None)"
  shows "get_ohlc_data K pair interval since limit = ohlc_empty pair"
  using assms by (auto simp: get_ohlc_data_def)

lemma summary_indicators_never_computed:
  "o_data (get_ohlc_data K pair 1440 None (Some 30)) \<noteq> [] \<Longrightarrow>
   calculate_technical_indicators (o_data (get_ohlc_data K pair 1440 None (Some 30))) = empty_bundle"
proof -
  have "length (o_data (get_ohlc_data K pair 1440 None (Some 30))) \<le> nat 30"
    by (rule get_ohlc_data_length) simp
  then show ?thesis by (simp add: calc_short)
qed

text \<open>
  Claim C6. \<open>get_market_summary\<close> always returns a summary, never its error form. Each
  field is the result of its own call and of nothing else; a sub-fetch that raises, or whose
  reply lacks the pair, leaves its own field in the empty shape (no ticker, no order book,
  no trades, the empty candle result). The indicators are computed from the daily candles
  only, and they are the empty mapping when there are no daily candles.
\<close>
theorem market_summary_partial:
  "\<exists>s. get_market_summary K pair = Inr s
     \<and> s_symbol s = pair
     \<and> s_ticker s = get_ticker K pair
     \<and> s_ohlc_1h s = get_ohlc_data K pair 60 None (Some 24)
     \<and> s_ohlc_1d s = get_ohlc_data K pair 1440 None (Some 30)
     \<and> s_order_book s = get_order_book K pair 5
     \<and> s_recent_trades s = get_recent_trades K pair 20
     \<and> s_indicators s =
         (if o_data (s_ohlc_1d s) = [] then NoIndicators
          else Indicators (calculate_technical_indicators (o_data (s_ohlc_1d s))))
     \<and> (get_pair_ticker K pair = None
          \<or> (\<exists>reply. get_pair_ticker K pair = Some reply \<and> reply pair = None)
        \<longrightarrow> s_ticker s = None)
     \<and> (fetch_ohlc K pair 60 None = None
          \<or> (\<exists>reply. fetch_ohlc K pair 60 None = Some reply \<and> reply pair = None)
        \<longrightarrow> s_ohlc_1h s = ohlc_empty pair)
     \<and> (fetch_ohlc K pair 1440 None = None
          \<or> (\<exists>reply. fetch_ohlc K pair 1440 None = Some reply \<and> reply pair = None)
        \<longrightarrow> s_ohlc_1d s = ohlc_empty pair \<and> s_indicators s = NoIndicators)
     \<and> (fetch_order_book K pair = None
          \<or> (\<exists>reply. fetch_order_book K pair = Some reply \<and> reply pair = None)
        \<longrightarrow> s_order_book s = None)
     \<and> (fetch_recent_trades K pair = None
          \<or> (\<exists>reply. fetch_recent_trades K pair = Some reply \<and> reply pair = None)
        \<longrightarrow> s_recent_trades s = None)"
proof -
  let ?d = "get_ohlc_data K pair 1440 None (Some 30)"
  let ?s = "\<lparr>s_symbol = pair, s_ticker = get_ticker K pair,
             s_ohlc_1h = get_ohlc_data K pair 60 None (Some 24),
             s_ohlc_1d = ?d,
             s_order_book = get_order_book K pair 5,
             s_recent_trades = get_recent_trades K pair 20,
             s_indicators = (if o_data ?d \<noteq> []
                             then Indicators (calculate_technical_indicators (o_data ?d))
                             else NoIndicators)\<rparr>"
  have eq: "get_market_summary K pair = Inr ?s"
    by (simp add: get_market_summary_def Let_def)
  have ki: "kraken_interval 60 = 60" "kraken_interval 1440 = 1440" "since_param None = None"
    by (simp_all add: kraken_interval_def since_param_def)
  have t: "get_pair_ticker K pair = None
          \<or> (\<exists>reply. get_pair_ticker K pair = Some reply \<and> reply pair = None)
        \<longrightarrow> get_ticker K pair = None"
    by (auto simp: get_ticker_def)
  have h: "fetch_ohlc K pair 60 None = None
          \<or> (\<exists>reply. fetch_ohlc K pair 60 None = Some reply \<and> reply pair = None)
        \<longrightarrow> get_ohlc_data K pair 60 None (Some 24) = ohlc_empty pair"
    using get_ohlc_data_down[of K pair 60 None "Some 24"] by (simp add: ki)
  have d: "fetch_ohlc K pair 1440 None = None
          \<or> (\<exists>reply. fetch_ohlc K pair 1440 None = Some reply \<and> reply pair = None)
        \<longrightarrow> ?d = ohlc_empty pair"
    using get_ohlc_data_down[of K pair 1440 None "Some 30"] by (simp add: ki)
  have b: "fetch_order_book K pair = None
          \<or> (\<exists>reply. fetch_order_book K pair = Some reply \<and> reply pair = None)
        \<longrightarrow> get_order_book K pair 5 = None"
    by (auto simp: get_order_book_def)
  have r: "fetch_recent_trades K pair = None
          \<or> (\<exists>reply. fetch_recent_trades K pair = Some reply \<and> reply pair = None)
        \<longrightarrow> get_recent_trades K pair 20 = None"
    by (auto simp: get_recent_trades_def)
  have e: "o_data (ohlc_empty pair) = []" by (simp add: ohlc_empty_def)
  define s where "s = ?s"
  have f0: "get_market_summary K pair = Inr s" unfolding s_def by (rule eq)
  have f1: "s_symbol s = pair" by (simp add: s_def)
  have f2: "s_ticker s = get_ticker K pair" by (simp add: s_def)
  have f3: "s_ohlc_1h s = get_ohlc_data K pair 60 None (Some 24)" by (simp add: s_def)
  have f4: "s_ohlc_1d s = ?d" by (simp add: s_def)
  have f5: "s_order_book s = get_order_book K pair 5" by (simp add: s_def)
  have f6: "s_recent_trades s = get_recent_trades K pair 20" by (simp add: s_def)
  have f7: "s_indicators s =
         (if o_data (s_ohlc_1d s) = [] then NoIndicators
          else Indicators (calculate_technical_indicators (o_data (s_ohlc_1d s))))"
    unfolding f4 by (simp add: s_def)
  have g1: "get_pair_ticker K pair = None
          \<or> (\<exists>reply. get_pair_ticker K pair = Some reply \<and> reply pair = None)
        \<longrightarrow> s_ticker s = None"
    unfolding f2 by (rule t)
  have g2: "fetch_ohlc K pair 60 None = None
          \<or> (\<exists>reply. fetch_ohlc K pair 60 None = Some reply \<and> reply pair = None)
        \<longrightarrow> s_ohlc_1h s = ohlc_empty pair"
    unfolding f3 by (rule h)
  have g3: "fetch_ohlc K pair 1440 None = None
          \<or> (\<exists>reply. fetch_ohlc K pair 1440 None = Some reply \<and> reply pair = None)
        \<longrightarrow> s_ohlc_1d s = ohlc_empty pair \<and> s_indicators s = NoIndicators"
  proof
    assume "fetch_ohlc K pair 1440 None = None
          \<or> (\<exists>reply. fetch_ohlc K pair 1440 None = Some reply \<and> reply pair = None)"
    with d have "?d = ohlc_empty pair" by (rule mp)
    then have x: "s_ohlc_1d s = ohlc_empty pair" unfolding f4 .
    have "s_indicators s = NoIndicators" unfolding f7 unfolding x e by simp
    with x show "s_ohlc_1d s = ohlc_empty pair \<and> s_indicators s = NoIndicators" by (rule conjI)
  qed
  have g4: "fetch_order_book K pair = None
          \<or> (\<exists>reply. fetch_order_book K pair = Some reply \<and> reply pair = None)
        \<longrightarrow> s_order_book s = None"
    unfolding f5 by (rule b)
  have g5: "fetch_recent_trades K pair = None
          \<or> (\<exists>reply. fetch_recent_trades K pair = Some reply \<and> reply pair = None)
        \<longrightarrow> s_recent_trades s = None"
    unfolding f6 by (rule r)
  show ?thesis
    by (intro exI[of _ s] conjI) (rule f0 f1 f2 f3 f4 f5 f6 f7 g1 g2 g3 g4 g5)+
qed

theorem market_summary_partial_witness:
  "fetch_order_book probe_kraken ''XXBTZUSD'' = None
   \<and> (\<exists>s. get_market_summary probe_kraken ''XXBTZUSD'' = Inr s
         \<and> s_order_book s = None
         \<and> s_ticker s = Some (add_derived (probe_snapshot 100))
         \<and> map c_time (o_data (s_ohlc_1h s)) = [1, 2, 3])
   \<and> get_pair_ticker down_kraken ''XXBTZUSD'' = None
   \<and> fetch_ohlc down_kraken ''XXBTZUSD'' 60 None = None
   \<and> fetch_ohlc down_kraken ''XXBTZUSD'' 1440 None = None
   \<and> fetch_order_book down_kraken ''XXBTZUSD'' = None
   \<and> fetch_recent_trades down_kraken ''XXBTZUSD'' = None
   \<and> (\<exists>s. get_market_summary down_kraken ''XXBTZUSD'' = Inr s
         \<and> s_ticker s = None
         \<and> s_ohlc_1h s = ohlc_empty ''XXBTZUSD''
         \<and> s_ohlc_1d s = ohlc_empty ''XXBTZUSD''
         \<and> s_order_book s = None
         \<and> s_recent_trades s = None
         \<and> s_indicators s = NoIndicators)"
proof -
  have p0: "fetch_order_book probe_kraken ''XXBTZUSD'' = None" by (simp add: probe_kraken_def)
  have h1: "map c_time (o_data (get_ohlc_data probe_kraken ''XXBTZUSD'' 60 None (Some 24))) = [1, 2, 3]"
    by (simp add: probe_ohlc apply_limit_def flat_candle_def)
  from market_summary_partial[of probe_kraken "''XXBTZUSD''"] obtain s where
    s: "get_market_summary probe_kraken ''XXBTZUSD'' = Inr s"
      "s_ticker s = get_ticker probe_kraken ''XXBTZUSD''"
      "s_ohlc_1h s = get_ohlc_data probe_kraken ''XXBTZUSD'' 60 None (Some 24)"
      "fetch_order_book probe_kraken ''XXBTZUSD'' = None
          \<or> (\<exists>reply. fetch_order_book probe_kraken ''XXBTZUSD'' = Some reply \<and> reply ''XXBTZUSD'' = None)
        \<longrightarrow> s_order_book s = None"
    by blast
  have s1: "s_order_book s = None" using s(4) p0 by simp
  have s2: "s_ticker s = Some (add_derived (probe_snapshot 100))" unfolding s(2) by (rule probe_ticker)
  have s3: "map c_time (o_data (s_ohlc_1h s)) = [1, 2, 3]" unfolding s(3) by (rule h1)
  have a: "\<exists>s. get_market_summary probe_kraken ''XXBTZUSD'' = Inr s
         \<and> s_order_book s = None
         \<and> s_ticker s = Some (add_derived (probe_snapshot 100))
         \<and> map c_time (o_data (s_ohlc_1h s)) = [1, 2, 3]"
    by (intro exI[of _ s] conjI) (rule s(1) s1 s2 s3)+
  have d: "get_pair_ticker down_kraken ''XXBTZUSD'' = None"
    "fetch_ohlc down_kraken ''XXBTZUSD'' 60 None = None"
    "fetch_ohlc down_kraken ''XXBTZUSD'' 1440 None = None"
    "fetch_order_book down_kraken ''XXBTZUSD'' = None"
    "fetch_recent_trades down_kraken ''XXBTZUSD'' = None"
    by (simp_all add: down_kraken_def)
  from market_summary_partial[of down_kraken "''XXBTZUSD''"] obtain u where
    u: "get_market_summary down_kraken ''XXBTZUSD'' = Inr u"
      "get_pair_ticker down_kraken ''XXBTZUSD'' = None
          \<or> (\<exists>reply. get_pair_ticker down_kraken ''XXBTZUSD'' = Some reply \<and> reply ''XXBTZUSD'' = None)
        \<longrightarrow> s_ticker u = None"
      "fetch_ohlc down_kraken ''XXBTZUSD'' 60 None = None
          \<or> (\<exists>reply. fetch_ohlc down_kraken ''XXBTZUSD'' 60 None = Some reply \<and> reply ''XXBTZUSD'' = None)
        \<longrightarrow> s_ohlc_1h u = ohlc_empty ''XXBTZUSD''"
      "fetch_ohlc down_kraken ''XXBTZUSD'' 1440 None = None
          \<or> (\<exists>reply. fetch_ohlc down_kraken ''XXBTZUSD'' 1440 None = Some reply \<and> reply ''XXBTZUSD'' = None)
        \<longrightarrow> s_ohlc_1d u = ohlc_empty ''XXBTZUSD'' \<and> s_indicators u = NoIndicators"
      "fetch_order_book down_kraken ''XXBTZUSD'' = None
          \<or> (\<exists>reply. fetch_order_book down_kraken ''XXBTZUSD'' = Some reply \<and> reply ''XXBTZUSD'' = None)
        \<longrightarrow> s_order_book u = None"
      "fetch_recent_trades down_kraken ''XXBTZUSD'' = None
          \<or> (\<exists>reply. fetch_recent_trades down_kraken ''XXBTZUSD'' = Some reply \<and> reply ''XXBTZUSD'' = None)
        \<longrightarrow> s_recent_trades u = None"
    by blast
  have u1: "s_ticker u = None" using u(2) d(1) by simp
  have u2: "s_ohlc_1h u = ohlc_empty ''XXBTZUSD''" using u(3) d(2) by simp
  have u3: "s_ohlc_1d u = ohlc_empty ''XXBTZUSD''" "s_indicators u = NoIndicators"
    using u(4) d(3) by simp_all
  have u4: "s_order_book u = None" using u(5) d(4) by simp
  have u5: "s_recent_trades u = None" using u(6) d(5) by simp
  have b: "\<exists>s. get_market_summary down_kraken ''XXBTZUSD'' = Inr s
         \<and> s_ticker s = None
         \<and> s_ohlc_1h s = ohlc_empty ''XXBTZUSD''
         \<and> s_ohlc_1d s = ohlc_empty ''XXBTZUSD''
         \<and> s_order_book s = None
         \<and> s_recent_trades s = None
         \<and> s_indicators s = NoIndicators"
    by (intro exI[of _ u] conjI) (rule u(1) u1 u2 u3 u4 u5)+
  from p0 a d b show ?thesis by blast
qed

section \<open>The cache\<close>

lemma get_cached_data_miss:
  assumes "redis_client env = None
         \<or> (\<exists>client. redis_client env = Some client
               \<and> (rget client st key = None
                   \<or> (\<exists>cached. rget client st key = Some (Some cached) \<and> json_loads env cached = None)))"
  shows "get_cached_data env st key = JNull"
  using assms by (auto simp: get_cached_data_def)

lemma set_cached_data_noop:
  assumes "redis_client env = None
         \<or> (\<exists>client. redis_client env = Some client
               \<and> (json_dumps env payload = None
                   \<or> (\<exists>dumped. json_dumps env payload = Some dumped
                         \<and> rsetex client st key ttl dumped = None)))"
  shows "set_cached_data env st key payload ttl = st"
  using assms by (auto simp: set_cached_data_def)

lemma set_cached_data_all_fail:
  assumes "redis_client env = None
         \<or> (\<exists>client. redis_client env = Some client \<and> (\<forall>k t v. rsetex client st k t v = None))"
  shows "set_cached_data env st key payload ttl = st"
  using assms by (auto simp: set_cached_data_def split: option.splits)

lemma get_cached_data_all_fail:
  assumes "redis_client env = None
         \<or> (\<exists>client. redis_client env = Some client \<and> (\<forall>k. rget client st k = None))"
  shows "get_cached_data env st key = JNull"
  using assms by (auto simp: get_cached_data_def)

text \<open>
  Claim C7. Reading the cache gives Python's \<open>None\<close>, a miss, when there is no Redis client,
  when the read raises and when the cached text cannot be decoded; writing leaves the store
  as it is when there is no client, when encoding raises and when the write raises. Neither
  function has an error result. With no client, or with a client whose reads and writes all
  raise, the info and the history endpoint answer with the freshly computed body (or with
  the 404 or 500 of the data source itself), exactly as without a cache.
\<close>
theorem cache_failures_stay_inside:
  "(redis_client env = None
      \<or> (\<exists>client. redis_client env = Some client
            \<and> (rget client st key = None
                \<or> (\<exists>cached. rget client st key = Some (Some cached)
                      \<and> json_loads env cached = None)))
    \<longrightarrow> get_cached_data env st key = JNull)
   \<and> (redis_client env = None
        \<or> (\<exists>client. redis_client env = Some client
              \<and> (json_dumps env payload = None
                  \<or> (\<exists>dumped. json_dumps env payload = Some dumped
                        \<and> rsetex client st key ttl dumped = None)))
      \<longrightarrow> set_cached_data env st key payload ttl = st)
   \<and> (redis_client env = None
        \<or> (\<exists>client. redis_client env = Some client
              \<and> (\<forall>k. rget client st k = None) \<and> (\<forall>k t v. rsetex client st k t v = None))
      \<longrightarrow> get_stock_info env yf_info st symbol =
            (case yf_info symbol of
               None \<Rightarrow> (Failed 500, st)
             | Some info \<Rightarrow> (Ok (stock_info_of symbol info), st))
        \<and> get_history env yf_history st symbol period interval =
            (case yf_history symbol period interval of
               None \<Rightarrow> (Failed 500, st)
             | Some hist \<Rightarrow>
                 if hist = [] then (Failed 404, st)
                 else (Ok (history_body symbol period interval hist), st)))"
proof (intro conjI impI)
  assume "redis_client env = None
      \<or> (\<exists>client. redis_client env = Some client
            \<and> (rget client st key = None
                \<or> (\<exists>cached. rget client st key = Some (Some cached)
                      \<and> json_loads env cached = None)))"
  then show "get_cached_data env st key = JNull" by (rule get_cached_data_miss)
next
  assume "redis_client env = None
        \<or> (\<exists>client. redis_client env = Some client
              \<and> (json_dumps env payload = None
                  \<or> (\<exists>dumped. json_dumps env payload = Some dumped
                        \<and> rsetex client st key ttl dumped = None)))"
  then show "set_cached_data env st key payload ttl = st" by (rule set_cached_data_noop)
next
  assume a: "redis_client env = None
        \<or> (\<exists>client. redis_client env = Some client
              \<and> (\<forall>k. rget client st k = None) \<and> (\<forall>k t v. rsetex client st k t v = None))"
  then have g: "\<And>k. get_cached_data env st k = JNull"
    by (intro get_cached_data_all_fail) blast
  from a have w: "\<And>k p t. set_cached_data env st k p t = st"
    by (intro set_cached_data_all_fail) blast
  show "get_stock_info env yf_info st symbol =
            (case yf_info symbol of
               None \<Rightarrow> (Failed 500, st)
             | Some info \<Rightarrow> (Ok (stock_info_of symbol info), st))"
    by (simp add: get_stock_info_def g w Let_def split: option.splits)
  show "get_history env yf_history st symbol period interval =
            (case yf_history symbol period interval of
               None \<Rightarrow> (Failed 500, st)
             | Some hist \<Rightarrow>
                 if hist = [] then (Failed 404, st)
                 else (Ok (history_body symbol period interval hist), st))"
    by (simp add: get_history_def g w Let_def split: option.splits)
qed

theorem cache_failures_stay_inside_witness:
  "redis_client broken_service = Some broken_redis
   \<and> rget broken_redis () ''info:AAPL'' = None
   \<and> rsetex broken_redis () ''info:AAPL'' 3600 [] = None
   \<and> get_cached_data broken_service () ''info:AAPL'' = JNull
   \<and> set_cached_data broken_service () ''info:AAPL'' JNull 3600 = ()
   \<and> get_stock_info broken_service probe_info () ''AAPL''
       = (Ok (stock_info_of ''AAPL'' [''longName'' \<mapsto> JStr ''Apple Inc.'']), ())
   \<and> get_history broken_service probe_history () ''AAPL'' ''1y'' ''1d''
       = (Ok (history_body ''AAPL'' ''1y'' ''1d'' [flat_row 1 100, flat_row 2 100]), ())
   \<and> redis_client uncached_service = None
   \<and> get_stock_info uncached_service probe_info () ''AAPL''
       = (Ok (stock_info_of ''AAPL'' [''longName'' \<mapsto> JStr ''Apple Inc.'']), ())"
proof -
  have c: "redis_client broken_service = Some broken_redis" by (simp add: broken_service_def)
  have r: "rget broken_redis () ''info:AAPL'' = None" "\<forall>k. rget broken_redis () k = None"
    by (simp_all add: broken_redis_def)
  have w: "rsetex broken_redis () ''info:AAPL'' 3600 [] = None"
    "\<forall>k t v. rsetex broken_redis () k t v = None"
    by (simp_all add: broken_redis_def)
  have d: "json_dumps broken_service JNull = Some []" by (simp add: broken_service_def)
  have u: "redis_client uncached_service = None" by (simp add: uncached_service_def)
  note t = cache_failures_stay_inside[of broken_service "()" "''info:AAPL''" JNull 3600
      probe_info "''AAPL''" probe_history "''1y''" "''1d''"]
  note t' = cache_failures_stay_inside[of uncached_service "()" "''info:AAPL''" JNull 3600
      probe_info "''AAPL''" probe_history "''1y''" "''1d''"]
  from t c r(1) have g: "get_cached_data broken_service () ''info:AAPL'' = JNull" by blast
  from t c d w(1) have s: "set_cached_data broken_service () ''info:AAPL'' JNull 3600 = ()" by simp
  from t c r(2) w(2) have e: "get_stock_info broken_service probe_info () ''AAPL''
       = (Ok (stock_info_of ''AAPL'' [''longName'' \<mapsto> JStr ''Apple Inc.'']), ())"
    "get_history broken_service probe_history () ''AAPL'' ''1y'' ''1d''
       = (Ok (history_body ''AAPL'' ''1y'' ''1d'' [flat_row 1 100, flat_row 2 100]), ())"
    by (simp_all add: probe_info_def probe_history_def)
  from t' u have e': "get_stock_info uncached_service probe_info () ''AAPL''
       = (Ok (stock_info_of ''AAPL'' [''longName'' \<mapsto> JStr ''Apple Inc.'']), ())"
    by (simp add: probe_info_def)
  from c r(1) w(1) g s e u e' show ?thesis by simp
qed

end
